theory Spec2Isabelle
  imports Main "HOL-Library.Word"
begin

section \<open>CAN FD example node (main.c): data model\<close>

text \<open>
  The program is one C file. Its functions are \<open>main\<close> (an initialisation sequence followed
  by an endless dispatch loop), the button handler \<open>gpio_interrupt_handler\<close>, the controller
  interrupt \<open>isr_canfd\<close>, the receive callback \<open>canfd_rx_callback\<close> and \<open>handle_error\<close>.
  Everything the program does to the outside world goes through calls into the board
  support package, the HAL and the CAN FD driver, whose code is not part of main.c.
  The embedding records each such call as an event of a trace, in program order, and takes
  the values those calls return as inputs.
\<close>

type_synonym uint8_t = "8 word"
type_synonym uint32_t = "32 word"
type_synonym cy_rslt_t = "32 word"
type_synonym cy_en_canfd_status_t = "32 word"

subsection \<open>Macros of main.c\<close>

definition CANFD_NODE_1 :: int where
  "CANFD_NODE_1 = 1"

definition CANFD_NODE_2 :: int where
  "CANFD_NODE_2 = 2"

definition USE_CANFD_NODE :: int where
  "USE_CANFD_NODE = CANFD_NODE_1"

definition CANFD_HW_CHANNEL :: int where
  "CANFD_HW_CHANNEL = 0"

definition CANFD_BUFFER_INDEX :: int where
  "CANFD_BUFFER_INDEX = 0"

text \<open>\<open>CANFD_DLC\<close> is only used as the size of the array \<open>canfd_data_buffer\<close>.\<close>

definition CANFD_DLC :: nat where
  "CANFD_DLC = 8"

definition CRLF :: string where
  "CRLF = [CHR 0x0D, CHR 0x0A]"

subsection \<open>Constants and types of the driver headers\<close>

text \<open>
  main.c compares statuses with \<open>CY_RSLT_SUCCESS\<close> and \<open>CY_CANFD_SUCCESS\<close>. Both are
  defined in headers outside main.c, so the embedding takes them as parameters: every
  function that uses one receives the record \<open>cy_consts\<close>.
\<close>

record cy_consts =
  CY_RSLT_SUCCESS :: cy_rslt_t
  CY_CANFD_SUCCESS :: cy_en_canfd_status_t

text \<open>
  Modelled from the spec: the type of the \<open>rtr\<close> field of a received frame, declared in
  the driver header. The spec gives it two values: a data frame, or a remote frame that
  carries no data.
\<close>

datatype cy_en_canfd_rtr_t = CY_CANFD_RTR_DATA_FRAME | CY_CANFD_RTR_REMOTE_FRAME

text \<open>
  The received-message record \<open>cy_stc_canfd_rx_buffer_t\<close>, restricted to the fields main.c
  reads: \<open>r0_f->rtr\<close>, \<open>r0_f->id\<close>, \<open>r1_f->dlc\<close> and \<open>data_area_f\<close>. The data length code
  is read into a \<open>uint32_t\<close>. \<open>data_area_f\<close> is a pointer; \<open>memcpy\<close> reads the memory
  behind it byte by byte, so it is the map from a byte offset to the byte stored there.
\<close>

record cy_stc_canfd_rx_buffer_t =
  r0_f_rtr :: cy_en_canfd_rtr_t
  r0_f_id :: uint32_t
  r1_f_dlc :: uint32_t
  data_area_f :: "nat \<Rightarrow> uint8_t"

text \<open>
  Modelled from the spec: the outbound frame template \<open>CANFD_txBuffer_0\<close>, declared in the
  generated configuration. The spec describes it as a buffer descriptor with an identifier
  slot, a data-length slot and payload bytes; the identifier slot is the
  \<open>id\<close> field of \<open>CANFD_T0RegisterBuffer_0\<close>, which main.c assigns.
\<close>

record cy_stc_canfd_tx_buffer_t =
  t0_f_id :: uint32_t
  t1_f_dlc :: uint32_t
  tx_data_area_f :: "uint8_t list"

datatype pin = CYBSP_USER_LED | CYBSP_USER_BTN

subsection \<open>Events, errors and the program state\<close>

text \<open>
  One event per call that \<open>main\<close> and \<open>canfd_rx_callback\<close> make into code outside main.c,
  with the arguments that matter, and one for each assignment to the volatile flag.
  \<open>Printf fmt args\<close> is a call of \<open>printf\<close> with the format string and the values of its
  \<open>%d\<close> arguments after conversion to \<open>int\<close>.
  \<open>Cy_CANFD_UpdateAndTransmitMsgBuffer chan buf index\<close> carries the contents of the
  transmit buffer at the time of the call.
\<close>

datatype event =
    Cybsp_init
  | Cy_retarget_io_init
  | Printf string "int list"
  | Cy_SysInt_Init
  | NVIC_EnableIRQ
  | Cyhal_gpio_init pin
  | Cyhal_gpio_register_callback pin
  | Cyhal_gpio_enable_event pin
  | Enable_irq
  | Cy_CANFD_Init int
  | Cy_CANFD_UpdateAndTransmitMsgBuffer int cy_stc_canfd_tx_buffer_t int
  | Cyhal_gpio_toggle pin
  | Write_gpio_intr_flag bool

text \<open>
  \<open>Assert_Failed\<close> is \<open>CY_ASSERT(0)\<close>. \<open>Buffer_Overflow\<close> is an access outside the
  eight bytes of \<open>canfd_data_buffer\<close>, and \<open>Uninitialised_Read\<close> a read of one of its
  bytes before anything was stored there: both are undefined behaviour in C.
\<close>

datatype error = Assert_Failed | Buffer_Overflow | Uninitialised_Read

record state =
  gpio_intr_flag :: bool
  CANFD_txBuffer_0 :: cy_stc_canfd_tx_buffer_t
  trace :: "event list"

text \<open>The values returned by the calls of the initialisation sequence, in call order.\<close>

record init_results =
  cybsp_init_result :: cy_rslt_t
  cy_retarget_io_init_result :: cy_rslt_t
  Cy_SysInt_Init_result :: uint32_t
  cyhal_gpio_init_led_result :: cy_rslt_t
  cyhal_gpio_init_btn_result :: cy_rslt_t
  Cy_CANFD_Init_result :: cy_en_canfd_status_t

definition emit :: "event \<Rightarrow> state \<Rightarrow> state" where
  "emit e s = s\<lparr>trace := trace s @ [e]\<rparr>"

definition printf :: "string \<Rightarrow> int list \<Rightarrow> state \<Rightarrow> state" where
  "printf fmt args s = emit (Printf fmt args) s"

definition set_gpio_intr_flag :: "bool \<Rightarrow> state \<Rightarrow> state" where
  "set_gpio_intr_flag b s = emit (Write_gpio_intr_flag b) (s\<lparr>gpio_intr_flag := b\<rparr>)"

definition bind_res :: "error + state \<Rightarrow> (state \<Rightarrow> error + state) \<Rightarrow> error + state" where
  "bind_res m f = (case m of Inl e \<Rightarrow> Inl e | Inr s \<Rightarrow> f s)"

section \<open>The functions of main.c\<close>

subsection \<open>handle_error\<close>

text \<open>
  Modelled from the spec: the macro \<open>CY_ASSERT\<close>, defined in a header outside main.c. The
  spec has a failed assertion halt the system with no further progress, so a false
  condition ends the run with \<open>Assert_Failed\<close>.
\<close>

definition CY_ASSERT :: "bool \<Rightarrow> state \<Rightarrow> error + state" where
  "CY_ASSERT x s = (if x then Inr s else Inl Assert_Failed)"

definition handle_error :: "cy_consts \<Rightarrow> uint32_t \<Rightarrow> state \<Rightarrow> error + state" where
  "handle_error c status s =
     (if status \<noteq> CY_RSLT_SUCCESS c then CY_ASSERT False s else Inr s)"

subsection \<open>gpio_interrupt_handler\<close>

text \<open>Both parameters are unused.\<close>

definition gpio_interrupt_handler :: "'a \<Rightarrow> 'b \<Rightarrow> state \<Rightarrow> state" where
  "gpio_interrupt_handler handler_arg event s = set_gpio_intr_flag True s"

subsection \<open>canfd_rx_callback\<close>

text \<open>
  \<open>canfd_data_buffer\<close> is a local array of \<open>CANFD_DLC\<close> bytes, not initialised: a slot is
  \<open>None\<close> until a byte is stored in it. \<open>memcpy\<close> into it stores \<open>n\<close> bytes read from the
  source; more than the array holds is an overflow.
\<close>

definition memcpy :: "uint8_t option list \<Rightarrow> (nat \<Rightarrow> uint8_t) \<Rightarrow> nat \<Rightarrow> error + uint8_t option list" where
  "memcpy dst src n =
     (if n \<le> length dst then Inr (map (\<lambda>i. Some (src i)) [0..<n] @ drop n dst)
      else Inl Buffer_Overflow)"

text \<open>
  The loop \<open>for (uint8_t msg_idx = 0U; msg_idx < canfd_dlc; msg_idx++)\<close>. The comparison is
  between the index, promoted, and the 32-bit length; the increment is on eight bits.
\<close>

function print_rx_data :: "uint8_t \<Rightarrow> uint32_t \<Rightarrow> uint8_t option list \<Rightarrow> state \<Rightarrow> error + state" where
  "print_rx_data msg_idx canfd_dlc canfd_data_buffer s =
     (if ucast msg_idx < canfd_dlc then
        (if unat msg_idx < CANFD_DLC \<and> unat msg_idx < length canfd_data_buffer then
           (case canfd_data_buffer ! unat msg_idx of
              None \<Rightarrow> Inl Uninitialised_Read
            | Some b \<Rightarrow>
                print_rx_data (msg_idx + 1) canfd_dlc canfd_data_buffer
                  (printf '' %d '' [uint b] s))
         else Inl Buffer_Overflow)
      else Inr s)"
  by pat_completeness auto
termination
proof (relation "measure (\<lambda>(msg_idx, canfd_dlc, canfd_data_buffer, s). CANFD_DLC - unat msg_idx)")
  show "wf (measure (\<lambda>(msg_idx :: uint8_t, canfd_dlc :: uint32_t,
      canfd_data_buffer :: uint8_t option list, s :: state). CANFD_DLC - unat msg_idx))"
    by simp
next
  fix msg_idx :: uint8_t and canfd_dlc :: uint32_t
    and canfd_data_buffer :: "uint8_t option list" and s :: state and x2 :: uint8_t
  assume "unat msg_idx < CANFD_DLC \<and> unat msg_idx < length canfd_data_buffer"
  then have small: "unat msg_idx < 8"
    by (simp add: CANFD_DLC_def)
  then have "unat (msg_idx + 1) = unat msg_idx + 1"
    by (simp add: unat_word_ariths)
  with small show "((msg_idx + 1, canfd_dlc, canfd_data_buffer, printf '' %d '' [uint x2] s),
      (msg_idx, canfd_dlc, canfd_data_buffer, s))
    \<in> measure (\<lambda>(msg_idx, canfd_dlc, canfd_data_buffer, s). CANFD_DLC - unat msg_idx)"
    by (simp add: CANFD_DLC_def)
qed

definition canfd_rx_callback :: "bool \<Rightarrow> uint8_t \<Rightarrow> cy_stc_canfd_rx_buffer_t \<Rightarrow> state \<Rightarrow> error + state" where
  "canfd_rx_callback msg_valid msg_buf_fifo_num canfd_rx_buf s =
     (let canfd_data_buffer = replicate CANFD_DLC None in
      if True = msg_valid then
        if CY_CANFD_RTR_DATA_FRAME = r0_f_rtr canfd_rx_buf then
          (let s1 = emit (Cyhal_gpio_toggle CYBSP_USER_LED) s;
               canfd_dlc = r1_f_dlc canfd_rx_buf;
               canfd_id = r0_f_id canfd_rx_buf;
               s2 = printf (''%d bytes received with message identifier %d'' @ CRLF @ CRLF)
                      [sint canfd_dlc, sint canfd_id] s1
           in case memcpy canfd_data_buffer (data_area_f canfd_rx_buf) (unat canfd_dlc) of
                Inl e \<Rightarrow> Inl e
              | Inr canfd_data_buffer' \<Rightarrow>
                  bind_res
                    (print_rx_data 0 canfd_dlc canfd_data_buffer' (printf ''Rx Data : '' [] s2))
                    (\<lambda>s3. Inr (printf (CRLF @ CRLF) [] s3)))
        else Inr s
      else Inr s)"

subsection \<open>isr_canfd\<close>

text \<open>
  Modelled from the spec: the driver's interrupt dispatch \<open>Cy_CANFD_IrqHandler\<close>, whose code
  is outside main.c. The spec has it find the cause of the interrupt and invoke the
  registered receive callback when a frame has arrived. Its argument here is the list of
  callback invocations it makes during one interrupt, each with the validity flag, the
  FIFO number and the received record.
\<close>

fun Cy_CANFD_IrqHandler :: "int \<Rightarrow> (bool \<times> uint8_t \<times> cy_stc_canfd_rx_buffer_t) list \<Rightarrow> state \<Rightarrow> error + state" where
  "Cy_CANFD_IrqHandler chan [] s = Inr s"
| "Cy_CANFD_IrqHandler chan ((msg_valid, msg_buf_fifo_num, canfd_rx_buf) # rest) s =
     bind_res (canfd_rx_callback msg_valid msg_buf_fifo_num canfd_rx_buf s)
       (Cy_CANFD_IrqHandler chan rest)"

definition isr_canfd :: "(bool \<times> uint8_t \<times> cy_stc_canfd_rx_buffer_t) list \<Rightarrow> state \<Rightarrow> error + state" where
  "isr_canfd received s = Cy_CANFD_IrqHandler CANFD_HW_CHANNEL received s"

subsection \<open>main: the initialisation sequence\<close>

text \<open>The cast \<open>(void)\<close> applied to the value a call returns: the value is dropped.\<close>

definition void_cast :: "'a \<Rightarrow> state \<Rightarrow> state" where
  "void_cast v s = s"

definition banner :: string where
  "banner = ''===========================================================''"

text \<open>
  Lines 131 to 182 of main.c, up to the entry of the loop. \<open>r\<close> holds what the external
  calls return. The last step is the assignment
  \<open>CANFD_T0RegisterBuffer_0.id = USE_CANFD_NODE\<close>.
\<close>

definition main_init :: "cy_consts \<Rightarrow> init_results \<Rightarrow> state \<Rightarrow> error + state" where
  "main_init c r s =
     (let s = emit Cybsp_init s in
      bind_res (handle_error c (cybsp_init_result r) s) (\<lambda>s.
      let s = emit Cy_retarget_io_init s in
      bind_res (handle_error c (cy_retarget_io_init_result r) s) (\<lambda>s.
      let s = printf (banner @ CRLF) [] s;
          s = printf (''Welcome to CAN-FD example'' @ CRLF) [] s;
          s = printf (banner @ CRLF @ ''\<newline>'') [] s;
          s = printf (banner @ CRLF) [] s;
          s = printf (''CAN-FD Node-%d (message id)'' @ CRLF) [USE_CANFD_NODE] s;
          s = printf (banner @ CRLF @ ''\<newline>'') [] s;
          s = void_cast (Cy_SysInt_Init_result r) (emit Cy_SysInt_Init s);
          s = emit NVIC_EnableIRQ s;
          s = emit (Cyhal_gpio_init CYBSP_USER_LED) s in
      bind_res (handle_error c (cyhal_gpio_init_led_result r) s) (\<lambda>s.
      let s = emit (Cyhal_gpio_init CYBSP_USER_BTN) s in
      bind_res (handle_error c (cyhal_gpio_init_btn_result r) s) (\<lambda>s.
      let s = emit (Cyhal_gpio_register_callback CYBSP_USER_BTN) s;
          s = emit (Cyhal_gpio_enable_event CYBSP_USER_BTN) s;
          s = emit Enable_irq s;
          s = emit (Cy_CANFD_Init CANFD_HW_CHANNEL) s in
      bind_res (handle_error c (Cy_CANFD_Init_result r) s) (\<lambda>s.
      Inr (s\<lparr>CANFD_txBuffer_0 :=
             (CANFD_txBuffer_0 s)\<lparr>t0_f_id := word_of_int USE_CANFD_NODE\<rparr>\<rparr>)))))))"

subsection \<open>main: the dispatch loop\<close>

text \<open>
  One pass through the body of \<open>for(;;)\<close>. \<open>tx_status\<close> is the status the driver returns
  if the pass calls \<open>Cy_CANFD_UpdateAndTransmitMsgBuffer\<close>.
\<close>

definition loop_iteration :: "cy_consts \<Rightarrow> cy_en_canfd_status_t \<Rightarrow> state \<Rightarrow> state" where
  "loop_iteration c tx_status s =
     (if True = gpio_intr_flag s then
        (let s = emit (Cy_CANFD_UpdateAndTransmitMsgBuffer CANFD_HW_CHANNEL
                         (CANFD_txBuffer_0 s) CANFD_BUFFER_INDEX) s;
             status = tx_status;
             s = (if CY_CANFD_SUCCESS c = status
                  then printf (''CAN-FD Frame sent with message ID-%d'' @ CRLF @ CRLF)
                         [USE_CANFD_NODE] s
                  else printf (''Error sending CAN-FD Frame with message ID-%d'' @ CRLF @ CRLF)
                         [USE_CANFD_NODE] s)
         in set_gpio_intr_flag False s)
      else s)"

subsection \<open>The running system\<close>

text \<open>
  After the initialisation the processor runs passes of the loop, and the two interrupts
  fire between them. A run is a list of such actions. The loop never exits, so a run is a
  finite prefix of what the system does; it ends early only on an error. An interrupt in
  the middle of a pass is not modelled.
\<close>

datatype action =
    Button_Interrupt
  | Canfd_Interrupt "(bool \<times> uint8_t \<times> cy_stc_canfd_rx_buffer_t) list"
  | Loop_Iteration cy_en_canfd_status_t

fun exec :: "cy_consts \<Rightarrow> action \<Rightarrow> state \<Rightarrow> error + state" where
  "exec c Button_Interrupt s = Inr (gpio_interrupt_handler () () s)"
| "exec c (Canfd_Interrupt received) s = isr_canfd received s"
| "exec c (Loop_Iteration tx_status) s = Inr (loop_iteration c tx_status s)"

fun run :: "cy_consts \<Rightarrow> action list \<Rightarrow> state \<Rightarrow> error + state" where
  "run c [] s = Inr s"
| "run c (a # as) s = bind_res (exec c a s) (run c as)"

definition main :: "cy_consts \<Rightarrow> init_results \<Rightarrow> action list \<Rightarrow> state \<Rightarrow> error + state" where
  "main c r actions s = bind_res (main_init c r s) (run c actions)"

section \<open>Notions used in the statements\<close>

text \<open>The events a state has gained over an earlier one.\<close>

definition new_events :: "state \<Rightarrow> state \<Rightarrow> event list" where
  "new_events s s' = drop (length (trace s)) (trace s')"

definition is_transmit :: "event \<Rightarrow> bool" where
  "is_transmit e =
     (case e of Cy_CANFD_UpdateAndTransmitMsgBuffer chan buf index \<Rightarrow> True | _ \<Rightarrow> False)"

text \<open>The events \<open>canfd_rx_callback\<close> can produce: the indicator toggle and log output.\<close>

definition rx_event :: "event \<Rightarrow> bool" where
  "rx_event e = (case e of Cyhal_gpio_toggle p \<Rightarrow> True | Printf fmt args \<Rightarrow> True | _ \<Rightarrow> False)"

definition enters_loop :: "cy_consts \<Rightarrow> init_results \<Rightarrow> state \<Rightarrow> bool" where
  "enters_loop c r s = (case main_init c r s of Inl e \<Rightarrow> False | Inr s' \<Rightarrow> True)"

text \<open>
  A transmit call that submits a frame with the node identity as identifier to the fixed
  buffer index on the fixed channel; every other event passes.
\<close>

definition carries_node_identity :: "event \<Rightarrow> bool" where
  "carries_node_identity e =
     (case e of
        Cy_CANFD_UpdateAndTransmitMsgBuffer chan frame index \<Rightarrow>
          chan = CANFD_HW_CHANNEL \<and> index = CANFD_BUFFER_INDEX
          \<and> t0_f_id frame = word_of_int USE_CANFD_NODE
      | _ \<Rightarrow> True)"

text \<open>
  The invariant of the running system: the identifier slot of the template holds the node
  identity, and so did every frame submitted so far.
\<close>

definition identity_kept :: "state \<Rightarrow> bool" where
  "identity_kept s \<longleftrightarrow>
     t0_f_id (CANFD_txBuffer_0 s) = word_of_int USE_CANFD_NODE
     \<and> list_all carries_node_identity (trace s)"

subsection \<open>Concrete inputs\<close>

text \<open>
  The success codes as the Cypress headers have them (both zero); the state at program
  start, with the flag false as its initialiser says and some template; the state at the
  entry of the loop after a button press; a received data frame of four bytes 1, 2, 3, 4;
  a received data frame whose data length code is 9; and an initialisation in which every
  call succeeds.
\<close>

definition example_consts :: cy_consts where
  "example_consts = \<lparr>CY_RSLT_SUCCESS = 0, CY_CANFD_SUCCESS = 0\<rparr>"

definition example_state :: state where
  "example_state =
     \<lparr>gpio_intr_flag = False,
      CANFD_txBuffer_0 =
        \<lparr>t0_f_id = 0x22, t1_f_dlc = 8, tx_data_area_f = [1, 2, 3, 4, 5, 6, 7, 8]\<rparr>,
      trace = []\<rparr>"

definition pending_state :: state where
  "pending_state =
     \<lparr>gpio_intr_flag = True,
      CANFD_txBuffer_0 =
        \<lparr>t0_f_id = 1, t1_f_dlc = 8, tx_data_area_f = [1, 2, 3, 4, 5, 6, 7, 8]\<rparr>,
      trace = []\<rparr>"

definition example_frame :: cy_stc_canfd_rx_buffer_t where
  "example_frame =
     \<lparr>r0_f_rtr = CY_CANFD_RTR_DATA_FRAME, r0_f_id = 2, r1_f_dlc = 4,
      data_area_f = (\<lambda>i. of_nat (i + 1))\<rparr>"

definition oversized_frame :: cy_stc_canfd_rx_buffer_t where
  "oversized_frame =
     \<lparr>r0_f_rtr = CY_CANFD_RTR_DATA_FRAME, r0_f_id = 2, r1_f_dlc = 9,
      data_area_f = (\<lambda>i. of_nat (i + 1))\<rparr>"

definition example_results :: init_results where
  "example_results =
     \<lparr>cybsp_init_result = 0, cy_retarget_io_init_result = 0, Cy_SysInt_Init_result = 0,
      cyhal_gpio_init_led_result = 0, cyhal_gpio_init_btn_result = 0,
      Cy_CANFD_Init_result = 0\<rparr>"

text \<open>
  A run after the initialisation: a button press, a pass that transmits with success, a
  received frame, a second press, and a pass whose transmission the controller rejects;
  and the state this run of \<open>main\<close> ends in.
\<close>

definition example_actions :: "action list" where
  "example_actions =
     [Button_Interrupt, Loop_Iteration 0, Canfd_Interrupt [(True, 0, example_frame)],
      Button_Interrupt, Loop_Iteration 7]"

definition example_end :: state where
  "example_end =
     (case main example_consts example_results example_actions example_state of
        Inl e \<Rightarrow> example_state | Inr s \<Rightarrow> s)"

section \<open>Fault escalation: handle_error\<close>

lemma handle_error_success: "handle_error c (CY_RSLT_SUCCESS c) s = Inr s"
  by (simp add: handle_error_def)

lemma handle_error_failure:
  "status \<noteq> CY_RSLT_SUCCESS c \<Longrightarrow> handle_error c status s = Inl Assert_Failed"
  by (simp add: handle_error_def CY_ASSERT_def)

text \<open>
  Claim C7. \<open>handle_error status\<close> halts (the assertion fails and nothing runs after it) if
  and only if \<open>status\<close> is not \<open>CY_RSLT_SUCCESS\<close>; on \<open>CY_RSLT_SUCCESS\<close> it returns and
  the state, its trace included, is the one it was given.
\<close>

theorem handle_error_halts_iff_failure:
  "((\<exists>e. handle_error c status s = Inl e) \<longleftrightarrow> status \<noteq> CY_RSLT_SUCCESS c)
   \<and> (status \<noteq> CY_RSLT_SUCCESS c \<longrightarrow> handle_error c status s = Inl Assert_Failed)
   \<and> (status = CY_RSLT_SUCCESS c \<longrightarrow> handle_error c status s = Inr s)"
  by (simp add: handle_error_def CY_ASSERT_def)

theorem handle_error_halts_iff_failure_witness:
  "handle_error example_consts 1 example_state = Inl Assert_Failed
   \<and> handle_error example_consts 0 example_state = Inr example_state"
  using handle_error_halts_iff_failure [of example_consts 1 example_state]
    handle_error_halts_iff_failure [of example_consts 0 example_state]
  by (simp add: example_consts_def)

section \<open>The receive callback\<close>

declare print_rx_data.simps [simp del]

text \<open>
  Claim C10. What \<open>canfd_rx_callback\<close> does is the same for any two FIFO numbers, the
  validity flag and the record being equal.
\<close>

theorem canfd_rx_callback_independent_of_fifo_num:
  "canfd_rx_callback msg_valid fifo_num_1 canfd_rx_buf s =
   canfd_rx_callback msg_valid fifo_num_2 canfd_rx_buf s"
  by (simp add: canfd_rx_callback_def)

theorem canfd_rx_callback_independent_of_fifo_num_witness:
  "canfd_rx_callback True 0 example_frame example_state =
   canfd_rx_callback True 1 example_frame example_state"
  by (rule canfd_rx_callback_independent_of_fifo_num)

text \<open>
  Claim C5. When \<open>msg_valid\<close> is false, or the record is a remote frame, the callback
  returns the state it was given: no indicator toggle, no log output.
\<close>

theorem canfd_rx_callback_ignores_invalid_and_remote:
  "\<not> msg_valid \<or> r0_f_rtr canfd_rx_buf = CY_CANFD_RTR_REMOTE_FRAME \<Longrightarrow>
   canfd_rx_callback msg_valid msg_buf_fifo_num canfd_rx_buf s = Inr s"
  by (auto simp add: canfd_rx_callback_def)

theorem canfd_rx_callback_ignores_invalid_and_remote_witness:
  "canfd_rx_callback False 0 example_frame example_state = Inr example_state
   \<and> canfd_rx_callback True 0 (example_frame\<lparr>r0_f_rtr := CY_CANFD_RTR_REMOTE_FRAME\<rparr>)
       example_state = Inr example_state"
  using canfd_rx_callback_ignores_invalid_and_remote [of False example_frame 0 example_state]
    canfd_rx_callback_ignores_invalid_and_remote
      [of True "example_frame\<lparr>r0_f_rtr := CY_CANFD_RTR_REMOTE_FRAME\<rparr>" 0 example_state]
  by simp

subsection \<open>The copy and the print loop\<close>

lemma unat_ucast_msg_idx: "unat (ucast (w :: uint8_t) :: uint32_t) = unat w"
proof -
  have "unat w < 2 ^ 8"
    using unsigned_less [of w] by simp
  then have "unat w < 2 ^ 32"
    by simp
  then show ?thesis
    by (simp add: unsigned_ucast_eq take_bit_nat_eq_self)
qed

lemma sint_small: "unat (w :: uint32_t) \<le> 8 \<Longrightarrow> sint w = int (unat w)"
proof -
  assume "unat w \<le> 8"
  then have "int (unat w) \<le> int 8"
    by (rule of_nat_mono)
  then have "uint w \<le> 8"
    by (simp only: uint_nat [symmetric])
  then have "uint w < 2 ^ 31"
    by simp
  moreover have "- (2 ^ 31) \<le> uint w"
    by (rule order_trans [of _ 0]) simp_all
  ultimately have "signed_take_bit 31 (uint w) = uint w"
    by (rule signed_take_bit_int_eq_self [rotated])
  then show ?thesis
    by (simp add: sint_uint)
qed

lemma memcpy_in_bounds:
  "n \<le> CANFD_DLC \<Longrightarrow> memcpy (replicate CANFD_DLC None) src n =
     Inr (map (\<lambda>i. Some (src i)) [0..<n] @ replicate (CANFD_DLC - n) None)"
  by (simp add: memcpy_def)

lemma memcpy_overflow:
  "CANFD_DLC < n \<Longrightarrow> memcpy (replicate CANFD_DLC None) src n = Inl Buffer_Overflow"
  by (simp add: memcpy_def)

text \<open>
  The loop started at \<open>idx\<close> on a buffer whose first \<open>dlc\<close> bytes were copied from \<open>src\<close>
  prints the bytes from \<open>idx\<close> up to \<open>dlc\<close>, in order. Induction on the number of bytes
  still to print.
\<close>

lemma print_rx_data_copied:
  assumes "length buf = CANFD_DLC" and "unat dlc \<le> CANFD_DLC"
    and "\<forall>i < unat dlc. buf ! i = Some (src i)"
  shows "unat idx \<le> unat dlc \<Longrightarrow> print_rx_data idx dlc buf s =
     Inr (s\<lparr>trace := trace s @ map (\<lambda>i. Printf '' %d '' [uint (src i)]) [unat idx..<unat dlc]\<rparr>)"
proof (induction "unat dlc - unat idx" arbitrary: idx s)
  case 0
  then have "unat idx = unat dlc" by simp
  then have "\<not> ucast idx < dlc"
    by (simp add: word_less_nat_alt unat_ucast_msg_idx)
  then show ?case
    using \<open>unat idx = unat dlc\<close> by (subst print_rx_data.simps) simp
next
  case (Suc n)
  then have lt: "unat idx < unat dlc" by simp
  then have c1: "ucast idx < dlc"
    by (simp add: word_less_nat_alt unat_ucast_msg_idx)
  from lt assms have c2: "unat idx < CANFD_DLC \<and> unat idx < length buf" by simp
  from lt assms have c3: "buf ! unat idx = Some (src (unat idx))" by simp
  from c2 have "unat idx < 8" by (simp add: CANFD_DLC_def)
  then have nx: "unat (idx + 1) = Suc (unat idx)"
    by (simp add: unat_word_ariths)
  with Suc lt have "print_rx_data (idx + 1) dlc buf (printf '' %d '' [uint (src (unat idx))] s) =
     Inr ((printf '' %d '' [uint (src (unat idx))] s)\<lparr>trace :=
        trace (printf '' %d '' [uint (src (unat idx))] s)
        @ map (\<lambda>i. Printf '' %d '' [uint (src i)]) [unat (idx + 1)..<unat dlc]\<rparr>)"
    by simp
  then show ?case
    using c1 c2 c3 nx lt
    by (subst print_rx_data.simps) (simp add: printf_def emit_def upt_conv_Cons)
qed

lemma canfd_rx_callback_data_frame:
  assumes "unat (r1_f_dlc canfd_rx_buf) \<le> CANFD_DLC"
    and "r0_f_rtr canfd_rx_buf = CY_CANFD_RTR_DATA_FRAME"
  shows "canfd_rx_callback True msg_buf_fifo_num canfd_rx_buf s =
     Inr (s\<lparr>trace := trace s @
        [Cyhal_gpio_toggle CYBSP_USER_LED,
         Printf (''%d bytes received with message identifier %d'' @ CRLF @ CRLF)
           [int (unat (r1_f_dlc canfd_rx_buf)), sint (r0_f_id canfd_rx_buf)],
         Printf ''Rx Data : '' []] @
        map (\<lambda>i. Printf '' %d '' [uint (data_area_f canfd_rx_buf i)])
          [0..<unat (r1_f_dlc canfd_rx_buf)] @
        [Printf (CRLF @ CRLF) []]\<rparr>)"
proof -
  let ?n = "unat (r1_f_dlc canfd_rx_buf)"
  let ?src = "data_area_f canfd_rx_buf"
  let ?buf = "map (\<lambda>i. Some (?src i)) [0..<?n] @ replicate (CANFD_DLC - ?n) None"
  have len: "length ?buf = CANFD_DLC"
    using assms(1) by simp
  have got: "\<forall>i < ?n. ?buf ! i = Some (?src i)"
    by (simp add: nth_append)
  have start: "unat (0 :: uint8_t) \<le> ?n"
    by simp
  have loop: "print_rx_data 0 (r1_f_dlc canfd_rx_buf) ?buf s' =
     Inr (s'\<lparr>trace := trace s' @ map (\<lambda>i. Printf '' %d '' [uint (?src i)]) [0..<?n]\<rparr>)" for s'
    using print_rx_data_copied [OF len assms(1) got start, of s'] by simp
  from assms(1) have count: "sint (r1_f_dlc canfd_rx_buf) = int ?n"
    by (simp add: sint_small CANFD_DLC_def)
  show ?thesis
    using assms
    by (simp add: canfd_rx_callback_def Let_def memcpy_in_bounds loop count bind_res_def
        printf_def emit_def)
qed

lemma canfd_rx_callback_overflow:
  assumes "CANFD_DLC < unat (r1_f_dlc canfd_rx_buf)"
    and "r0_f_rtr canfd_rx_buf = CY_CANFD_RTR_DATA_FRAME"
  shows "canfd_rx_callback True msg_buf_fifo_num canfd_rx_buf s = Inl Buffer_Overflow"
  using assms by (simp add: canfd_rx_callback_def Let_def memcpy_overflow)

text \<open>
  Claim C3. For a valid data frame whose data length code \<open>L\<close> is at most 8, the callback
  toggles the indicator, logs the byte count \<open>L\<close> with the identifier, and then logs the
  first \<open>L\<close> bytes of the data area, in order and unchanged, each with its own
  \<open>printf\<close>.
\<close>

theorem canfd_rx_callback_logs_payload:
  assumes "unat (r1_f_dlc canfd_rx_buf) \<le> 8"
    and "r0_f_rtr canfd_rx_buf = CY_CANFD_RTR_DATA_FRAME"
  shows "canfd_rx_callback True msg_buf_fifo_num canfd_rx_buf s =
     Inr (s\<lparr>trace := trace s @
        [Cyhal_gpio_toggle CYBSP_USER_LED,
         Printf (''%d bytes received with message identifier %d'' @ CRLF @ CRLF)
           [int (unat (r1_f_dlc canfd_rx_buf)), sint (r0_f_id canfd_rx_buf)],
         Printf ''Rx Data : '' []] @
        map (\<lambda>i. Printf '' %d '' [uint (data_area_f canfd_rx_buf i)])
          [0..<unat (r1_f_dlc canfd_rx_buf)] @
        [Printf (CRLF @ CRLF) []]\<rparr>)"
  using assms canfd_rx_callback_data_frame [of canfd_rx_buf msg_buf_fifo_num s]
  by (simp add: CANFD_DLC_def)

theorem canfd_rx_callback_logs_payload_witness:
  "canfd_rx_callback True 0 example_frame example_state =
     Inr (example_state\<lparr>trace :=
        [Cyhal_gpio_toggle CYBSP_USER_LED,
         Printf (''%d bytes received with message identifier %d'' @ CRLF @ CRLF) [4, 2],
         Printf ''Rx Data : '' [],
         Printf '' %d '' [1], Printf '' %d '' [2], Printf '' %d '' [3], Printf '' %d '' [4],
         Printf (CRLF @ CRLF) []]\<rparr>)"
proof -
  have upt4: "[0..<4] = [0, 1, 2, 3 :: nat]"
    by (simp add: upt_conv_Cons)
  show ?thesis
    using canfd_rx_callback_logs_payload [of example_frame 0 example_state]
    by (simp add: example_frame_def example_state_def upt4)
qed

text \<open>
  Claim C2. The claim is that the copy into \<open>canfd_data_buffer\<close> never leaves the eight
  bytes of the buffer. The callback copies as many bytes as the data length code says
  and does not compare it with the size of the buffer: for a valid data frame with data
  length code 9 the copy writes past the end.
\<close>

theorem canfd_rx_callback_overflows_buffer:
  "canfd_rx_callback True 0 oversized_frame example_state = Inl Buffer_Overflow"
  by (simp add: canfd_rx_callback_def Let_def oversized_frame_def memcpy_def CANFD_DLC_def)

section \<open>The dispatch loop\<close>

lemma loop_iteration_pending:
  assumes "gpio_intr_flag s"
  shows "loop_iteration c tx_status s =
     s\<lparr>gpio_intr_flag := False,
       trace := trace s @
         [Cy_CANFD_UpdateAndTransmitMsgBuffer CANFD_HW_CHANNEL (CANFD_txBuffer_0 s)
            CANFD_BUFFER_INDEX,
          Printf ((if tx_status = CY_CANFD_SUCCESS c then ''CAN-FD Frame sent with message ID-%d''
                   else ''Error sending CAN-FD Frame with message ID-%d'') @ CRLF @ CRLF)
            [USE_CANFD_NODE],
          Write_gpio_intr_flag False]\<rparr>"
  using assms
  by (simp add: loop_iteration_def Let_def set_gpio_intr_flag_def printf_def emit_def eq_commute)

lemma loop_iteration_idle: "\<not> gpio_intr_flag s \<Longrightarrow> loop_iteration c tx_status s = s"
  by (simp add: loop_iteration_def)

text \<open>
  Claim C1. A pass of the loop that finds the flag true calls
  \<open>Cy_CANFD_UpdateAndTransmitMsgBuffer\<close> once, then logs the outcome (the "sent" line on
  \<open>CY_CANFD_SUCCESS\<close>, the "error" line on any other status), then writes false to the
  flag, in this order and nothing else; the flag is false after the pass whatever the
  status was.
\<close>

theorem loop_iteration_transmits_logs_clears:
  assumes "gpio_intr_flag s"
  shows "loop_iteration c tx_status s =
     s\<lparr>gpio_intr_flag := False,
       trace := trace s @
         [Cy_CANFD_UpdateAndTransmitMsgBuffer CANFD_HW_CHANNEL (CANFD_txBuffer_0 s)
            CANFD_BUFFER_INDEX,
          Printf ((if tx_status = CY_CANFD_SUCCESS c then ''CAN-FD Frame sent with message ID-%d''
                   else ''Error sending CAN-FD Frame with message ID-%d'') @ CRLF @ CRLF)
            [USE_CANFD_NODE],
          Write_gpio_intr_flag False]\<rparr>
     \<and> length (filter is_transmit (new_events s (loop_iteration c tx_status s))) = 1
     \<and> \<not> gpio_intr_flag (loop_iteration c tx_status s)"
  by (simp add: loop_iteration_pending [OF assms] new_events_def is_transmit_def)

theorem loop_iteration_transmits_logs_clears_witness:
  "gpio_intr_flag pending_state
   \<and> loop_iteration example_consts 0 pending_state =
       pending_state\<lparr>gpio_intr_flag := False,
         trace := [Cy_CANFD_UpdateAndTransmitMsgBuffer 0 (CANFD_txBuffer_0 pending_state) 0,
                   Printf (''CAN-FD Frame sent with message ID-%d'' @ CRLF @ CRLF) [1],
                   Write_gpio_intr_flag False]\<rparr>
   \<and> loop_iteration example_consts 7 pending_state =
       pending_state\<lparr>gpio_intr_flag := False,
         trace := [Cy_CANFD_UpdateAndTransmitMsgBuffer 0 (CANFD_txBuffer_0 pending_state) 0,
                   Printf (''Error sending CAN-FD Frame with message ID-%d'' @ CRLF @ CRLF) [1],
                   Write_gpio_intr_flag False]\<rparr>"
proof -
  have pending: "gpio_intr_flag pending_state"
    by (simp add: pending_state_def)
  have empty: "trace pending_state = []"
    by (simp add: pending_state_def)
  show ?thesis
    using pending empty
      loop_iteration_transmits_logs_clears [OF pending, of example_consts 0]
      loop_iteration_transmits_logs_clears [OF pending, of example_consts 7]
    by (simp add: example_consts_def USE_CANFD_NODE_def CANFD_NODE_1_def
        CANFD_HW_CHANNEL_def CANFD_BUFFER_INDEX_def)
qed

text \<open>
  Claim C4. A pass of the loop that finds the flag true and whose transmit call returns a
  status other than \<open>CY_CANFD_SUCCESS\<close> returns normally: it has made the one transmit
  call, logged the error line and written false to the flag, and nothing has halted the
  system. The run goes on with the next action, and a next pass without a new button press
  does not transmit again.
\<close>

theorem failed_transmit_logged_not_escalated:
  assumes "gpio_intr_flag s" and "tx_status \<noteq> CY_CANFD_SUCCESS c"
  shows "exec c (Loop_Iteration tx_status) s =
      Inr (s\<lparr>gpio_intr_flag := False,
            trace := trace s @
              [Cy_CANFD_UpdateAndTransmitMsgBuffer CANFD_HW_CHANNEL (CANFD_txBuffer_0 s)
                 CANFD_BUFFER_INDEX,
               Printf (''Error sending CAN-FD Frame with message ID-%d'' @ CRLF @ CRLF)
                 [USE_CANFD_NODE],
               Write_gpio_intr_flag False]\<rparr>)
    \<and> run c (Loop_Iteration tx_status # actions) s =
        run c actions (loop_iteration c tx_status s)
    \<and> run c [Loop_Iteration tx_status, Loop_Iteration next_status] s =
        run c [Loop_Iteration tx_status] s"
proof -
  from assms have one: "loop_iteration c tx_status s =
      s\<lparr>gpio_intr_flag := False,
        trace := trace s @
          [Cy_CANFD_UpdateAndTransmitMsgBuffer CANFD_HW_CHANNEL (CANFD_txBuffer_0 s)
             CANFD_BUFFER_INDEX,
           Printf (''Error sending CAN-FD Frame with message ID-%d'' @ CRLF @ CRLF)
             [USE_CANFD_NODE],
           Write_gpio_intr_flag False]\<rparr>"
    by (simp add: loop_iteration_pending)
  then have "\<not> gpio_intr_flag (loop_iteration c tx_status s)"
    by simp
  then have again: "loop_iteration c next_status (loop_iteration c tx_status s) =
      loop_iteration c tx_status s"
    by (rule loop_iteration_idle)
  show ?thesis
    using one again by (simp add: bind_res_def)
qed

theorem failed_transmit_logged_not_escalated_witness:
  "gpio_intr_flag pending_state \<and> 7 \<noteq> CY_CANFD_SUCCESS example_consts
   \<and> run example_consts [Loop_Iteration 7, Loop_Iteration 0] pending_state =
       Inr (pending_state\<lparr>gpio_intr_flag := False,
         trace := [Cy_CANFD_UpdateAndTransmitMsgBuffer 0 (CANFD_txBuffer_0 pending_state) 0,
                   Printf (''Error sending CAN-FD Frame with message ID-%d'' @ CRLF @ CRLF) [1],
                   Write_gpio_intr_flag False]\<rparr>)"
proof -
  have pending: "gpio_intr_flag pending_state"
    by (simp add: pending_state_def)
  have failed: "7 \<noteq> CY_CANFD_SUCCESS example_consts"
    by (simp add: example_consts_def)
  have empty: "trace pending_state = []"
    by (simp add: pending_state_def)
  note fact = failed_transmit_logged_not_escalated [OF pending failed, of "[]" 0]
  from fact have once: "exec example_consts (Loop_Iteration 7) pending_state =
      Inr (pending_state\<lparr>gpio_intr_flag := False,
            trace := trace pending_state @
              [Cy_CANFD_UpdateAndTransmitMsgBuffer CANFD_HW_CHANNEL (CANFD_txBuffer_0 pending_state)
                 CANFD_BUFFER_INDEX,
               Printf (''Error sending CAN-FD Frame with message ID-%d'' @ CRLF @ CRLF)
                 [USE_CANFD_NODE],
               Write_gpio_intr_flag False]\<rparr>)"
    by (rule conjunct1)
  from fact have "run example_consts [Loop_Iteration 7, Loop_Iteration 0] pending_state =
      run example_consts [Loop_Iteration 7] pending_state"
    by (rule conjunct2 [THEN conjunct2])
  also have "\<dots> = exec example_consts (Loop_Iteration 7) pending_state"
    by (simp add: bind_res_def)
  finally have "run example_consts [Loop_Iteration 7, Loop_Iteration 0] pending_state =
      exec example_consts (Loop_Iteration 7) pending_state" .
  with once pending failed empty show ?thesis
    by (simp add: USE_CANFD_NODE_def CANFD_NODE_1_def CANFD_HW_CHANNEL_def
        CANFD_BUFFER_INDEX_def)
qed

section \<open>The initialisation sequence\<close>

lemma main_init_halts:
  assumes "cybsp_init_result r \<noteq> CY_RSLT_SUCCESS c
    \<or> cy_retarget_io_init_result r \<noteq> CY_RSLT_SUCCESS c
    \<or> cyhal_gpio_init_led_result r \<noteq> CY_RSLT_SUCCESS c
    \<or> cyhal_gpio_init_btn_result r \<noteq> CY_RSLT_SUCCESS c
    \<or> Cy_CANFD_Init_result r \<noteq> CY_RSLT_SUCCESS c"
  shows "main_init c r s = Inl Assert_Failed"
  using assms
  by (auto simp add: main_init_def Let_def bind_res_def handle_error_def CY_ASSERT_def)

lemma main_init_enters:
  assumes "cybsp_init_result r = CY_RSLT_SUCCESS c"
    and "cy_retarget_io_init_result r = CY_RSLT_SUCCESS c"
    and "cyhal_gpio_init_led_result r = CY_RSLT_SUCCESS c"
    and "cyhal_gpio_init_btn_result r = CY_RSLT_SUCCESS c"
    and "Cy_CANFD_Init_result r = CY_RSLT_SUCCESS c"
  shows "\<exists>s'. main_init c r s = Inr s'"
  using assms
  by (simp add: main_init_def Let_def bind_res_def handle_error_def)

lemma main_init_ignores_sysint:
  "main_init c (r\<lparr>Cy_SysInt_Init_result := v\<rparr>) s = main_init c r s"
  by (simp add: main_init_def void_cast_def)

lemma main_init_effect:
  assumes "main_init c r s = Inr s'"
  shows "gpio_intr_flag s' = gpio_intr_flag s
    \<and> t0_f_id (CANFD_txBuffer_0 s') = word_of_int USE_CANFD_NODE
    \<and> (\<exists>evs. trace s' = trace s @ evs \<and> filter is_transmit evs = []
          \<and> (\<forall>b. Write_gpio_intr_flag b \<notin> set evs))"
  using assms
  by (auto simp add: main_init_def Let_def bind_res_def handle_error_def CY_ASSERT_def
      printf_def emit_def void_cast_def is_transmit_def split: if_splits)

text \<open>
  Claim C6, as amended. \<open>main\<close> passes five statuses to \<open>handle_error\<close>: those of
  \<open>cybsp_init\<close>, \<open>cy_retarget_io_init\<close>, the two calls of \<open>cyhal_gpio_init\<close> and
  \<open>Cy_CANFD_Init\<close>. If any of them is not \<open>CY_RSLT_SUCCESS\<close> the system halts during the
  initialisation, whatever would have happened in the loop; if all five are, the loop is
  entered. The status of \<open>Cy_SysInt_Init\<close> is cast to \<open>void\<close>: it changes nothing.
\<close>

theorem checked_init_failure_halts_before_loop:
  "((cybsp_init_result r \<noteq> CY_RSLT_SUCCESS c
      \<or> cy_retarget_io_init_result r \<noteq> CY_RSLT_SUCCESS c
      \<or> cyhal_gpio_init_led_result r \<noteq> CY_RSLT_SUCCESS c
      \<or> cyhal_gpio_init_btn_result r \<noteq> CY_RSLT_SUCCESS c
      \<or> Cy_CANFD_Init_result r \<noteq> CY_RSLT_SUCCESS c)
     \<longrightarrow> main_init c r s = Inl Assert_Failed \<and> main c r actions s = Inl Assert_Failed)
   \<and> (cybsp_init_result r = CY_RSLT_SUCCESS c
      \<and> cy_retarget_io_init_result r = CY_RSLT_SUCCESS c
      \<and> cyhal_gpio_init_led_result r = CY_RSLT_SUCCESS c
      \<and> cyhal_gpio_init_btn_result r = CY_RSLT_SUCCESS c
      \<and> Cy_CANFD_Init_result r = CY_RSLT_SUCCESS c
     \<longrightarrow> enters_loop c r s)
   \<and> main c (r\<lparr>Cy_SysInt_Init_result := v\<rparr>) actions s = main c r actions s"
proof (intro conjI impI)
  assume bad: "cybsp_init_result r \<noteq> CY_RSLT_SUCCESS c
      \<or> cy_retarget_io_init_result r \<noteq> CY_RSLT_SUCCESS c
      \<or> cyhal_gpio_init_led_result r \<noteq> CY_RSLT_SUCCESS c
      \<or> cyhal_gpio_init_btn_result r \<noteq> CY_RSLT_SUCCESS c
      \<or> Cy_CANFD_Init_result r \<noteq> CY_RSLT_SUCCESS c"
  then show halt: "main_init c r s = Inl Assert_Failed"
    by (rule main_init_halts)
  then show "main c r actions s = Inl Assert_Failed"
    by (simp add: main_def bind_res_def)
next
  assume "cybsp_init_result r = CY_RSLT_SUCCESS c
      \<and> cy_retarget_io_init_result r = CY_RSLT_SUCCESS c
      \<and> cyhal_gpio_init_led_result r = CY_RSLT_SUCCESS c
      \<and> cyhal_gpio_init_btn_result r = CY_RSLT_SUCCESS c
      \<and> Cy_CANFD_Init_result r = CY_RSLT_SUCCESS c"
  then have "\<exists>s'. main_init c r s = Inr s'"
    by (simp add: main_init_enters)
  then show "enters_loop c r s"
    by (auto simp add: enters_loop_def)
next
  show "main c (r\<lparr>Cy_SysInt_Init_result := v\<rparr>) actions s = main c r actions s"
    by (simp add: main_def main_init_ignores_sysint)
qed

theorem checked_init_failure_halts_before_loop_witness:
  "main example_consts (example_results\<lparr>Cy_CANFD_Init_result := 1\<rparr>) example_actions example_state
     = Inl Assert_Failed
   \<and> main example_consts (example_results\<lparr>cybsp_init_result := 1\<rparr>) example_actions example_state
     = Inl Assert_Failed
   \<and> enters_loop example_consts example_results example_state"
  using checked_init_failure_halts_before_loop [of "example_results\<lparr>Cy_CANFD_Init_result := 1\<rparr>" example_consts example_state example_actions]
    checked_init_failure_halts_before_loop [of "example_results\<lparr>cybsp_init_result := 1\<rparr>" example_consts example_state example_actions]
    checked_init_failure_halts_before_loop [of example_results example_consts example_state]
  by (simp add: example_results_def example_consts_def)

text \<open>
  Claim C6 as stated also names the interrupt registration among the steps whose failure
  halts the system. Whichever value \<open>Cy_SysInt_Init\<close> uses for success, one of the statuses
  0 and 1 is a failure; with either of them, and every other call succeeding, the loop
  is entered.
\<close>

theorem sysint_failure_still_enters_loop:
  "enters_loop example_consts (example_results\<lparr>Cy_SysInt_Init_result := 0\<rparr>) example_state
   \<and> enters_loop example_consts (example_results\<lparr>Cy_SysInt_Init_result := 1\<rparr>) example_state"
  by (simp add: enters_loop_def main_init_ignores_sysint main_init_def Let_def bind_res_def
      handle_error_def example_results_def example_consts_def)
section \<open>The running system\<close>

subsection \<open>What each part of the program does to the flag, the template and the trace\<close>

lemma canfd_rx_callback_cases:
  assumes "canfd_rx_callback msg_valid msg_buf_fifo_num canfd_rx_buf s = Inr s'"
  shows "s' = s \<or>
    (msg_valid \<and> r0_f_rtr canfd_rx_buf = CY_CANFD_RTR_DATA_FRAME
      \<and> unat (r1_f_dlc canfd_rx_buf) \<le> CANFD_DLC)"
proof (cases "msg_valid \<and> r0_f_rtr canfd_rx_buf = CY_CANFD_RTR_DATA_FRAME")
  case False
  then have "canfd_rx_callback msg_valid msg_buf_fifo_num canfd_rx_buf s = Inr s"
    by (auto simp add: canfd_rx_callback_def)
  with assms show ?thesis by simp
next
  case True
  show ?thesis
  proof (cases "unat (r1_f_dlc canfd_rx_buf) \<le> CANFD_DLC")
    case True
    with \<open>msg_valid \<and> r0_f_rtr canfd_rx_buf = CY_CANFD_RTR_DATA_FRAME\<close> show ?thesis by simp
  next
    case False
    then have "CANFD_DLC < unat (r1_f_dlc canfd_rx_buf)" by simp
    with True have "canfd_rx_callback msg_valid msg_buf_fifo_num canfd_rx_buf s = Inl Buffer_Overflow"
      by (simp add: canfd_rx_callback_overflow)
    with assms show ?thesis by simp
  qed
qed

lemma canfd_rx_callback_effect:
  assumes "canfd_rx_callback msg_valid msg_buf_fifo_num canfd_rx_buf s = Inr s'"
  shows "gpio_intr_flag s' = gpio_intr_flag s \<and> CANFD_txBuffer_0 s' = CANFD_txBuffer_0 s
    \<and> (\<exists>evs. trace s' = trace s @ evs \<and> list_all rx_event evs)"
proof -
  from canfd_rx_callback_cases [OF assms] show ?thesis
  proof
    assume "s' = s"
    then show ?thesis by simp
  next
    assume h: "msg_valid \<and> r0_f_rtr canfd_rx_buf = CY_CANFD_RTR_DATA_FRAME
      \<and> unat (r1_f_dlc canfd_rx_buf) \<le> CANFD_DLC"
    then have "canfd_rx_callback msg_valid msg_buf_fifo_num canfd_rx_buf s =
      Inr (s\<lparr>trace := trace s @
        [Cyhal_gpio_toggle CYBSP_USER_LED,
         Printf (''%d bytes received with message identifier %d'' @ CRLF @ CRLF)
           [int (unat (r1_f_dlc canfd_rx_buf)), sint (r0_f_id canfd_rx_buf)],
         Printf ''Rx Data : '' []] @
        map (\<lambda>i. Printf '' %d '' [uint (data_area_f canfd_rx_buf i)])
          [0..<unat (r1_f_dlc canfd_rx_buf)] @
        [Printf (CRLF @ CRLF) []]\<rparr>)"
      using canfd_rx_callback_data_frame [of canfd_rx_buf msg_buf_fifo_num s] by simp
    with assms have "s' = s\<lparr>trace := trace s @
        [Cyhal_gpio_toggle CYBSP_USER_LED,
         Printf (''%d bytes received with message identifier %d'' @ CRLF @ CRLF)
           [int (unat (r1_f_dlc canfd_rx_buf)), sint (r0_f_id canfd_rx_buf)],
         Printf ''Rx Data : '' []] @
        map (\<lambda>i. Printf '' %d '' [uint (data_area_f canfd_rx_buf i)])
          [0..<unat (r1_f_dlc canfd_rx_buf)] @
        [Printf (CRLF @ CRLF) []]\<rparr>"
      by simp
    then show ?thesis
      by (simp add: rx_event_def list_all_iff)
  qed
qed

lemma Cy_CANFD_IrqHandler_effect:
  "Cy_CANFD_IrqHandler chan received s = Inr s' \<Longrightarrow>
     gpio_intr_flag s' = gpio_intr_flag s \<and> CANFD_txBuffer_0 s' = CANFD_txBuffer_0 s
     \<and> (\<exists>evs. trace s' = trace s @ evs \<and> list_all rx_event evs)"
proof (induction received arbitrary: s)
  case Nil
  then show ?case by simp
next
  case (Cons d rest)
  obtain v f b where d: "d = (v, f, b)"
    by (cases d) auto
  from Cons.prems d obtain s1 where
    first: "canfd_rx_callback v f b s = Inr s1" and
    others: "Cy_CANFD_IrqHandler chan rest s1 = Inr s'"
    by (auto simp add: bind_res_def split: sum.splits)
  from canfd_rx_callback_effect [OF first] obtain evs1 where
    e1: "gpio_intr_flag s1 = gpio_intr_flag s" "CANFD_txBuffer_0 s1 = CANFD_txBuffer_0 s"
      "trace s1 = trace s @ evs1" "list_all rx_event evs1"
    by auto
  from Cons.IH [OF others] obtain evs2 where
    e2: "gpio_intr_flag s' = gpio_intr_flag s1" "CANFD_txBuffer_0 s' = CANFD_txBuffer_0 s1"
      "trace s' = trace s1 @ evs2" "list_all rx_event evs2"
    by auto
  from e1 e2 have "trace s' = trace s @ (evs1 @ evs2) \<and> list_all rx_event (evs1 @ evs2)"
    by simp
  with e1 e2 show ?case
    by metis
qed

text \<open>What each action does to the flag, the template and the trace.\<close>

lemma exec_effect:
  assumes "exec c a s = Inr s'"
  shows "(a = Button_Interrupt
          \<and> s' = s\<lparr>gpio_intr_flag := True, trace := trace s @ [Write_gpio_intr_flag True]\<rparr>)
    \<or> ((\<exists>received. a = Canfd_Interrupt received) \<and> gpio_intr_flag s' = gpio_intr_flag s
          \<and> CANFD_txBuffer_0 s' = CANFD_txBuffer_0 s
          \<and> (\<exists>evs. trace s' = trace s @ evs \<and> list_all rx_event evs))
    \<or> ((\<exists>tx_status. a = Loop_Iteration tx_status) \<and> \<not> gpio_intr_flag s \<and> s' = s)
    \<or> ((\<exists>tx_status. a = Loop_Iteration tx_status) \<and> gpio_intr_flag s \<and> \<not> gpio_intr_flag s'
          \<and> CANFD_txBuffer_0 s' = CANFD_txBuffer_0 s
          \<and> (\<exists>fmt. trace s' = trace s @
                [Cy_CANFD_UpdateAndTransmitMsgBuffer CANFD_HW_CHANNEL (CANFD_txBuffer_0 s)
                   CANFD_BUFFER_INDEX,
                 Printf fmt [USE_CANFD_NODE], Write_gpio_intr_flag False]))"
proof (cases a)
  case Button_Interrupt
  with assms show ?thesis
    by (auto simp add: gpio_interrupt_handler_def set_gpio_intr_flag_def emit_def)
next
  case (Canfd_Interrupt received)
  with assms have "Cy_CANFD_IrqHandler CANFD_HW_CHANNEL received s = Inr s'"
    by (simp add: isr_canfd_def)
  from Cy_CANFD_IrqHandler_effect [OF this] Canfd_Interrupt show ?thesis
    by simp
next
  case (Loop_Iteration tx_status)
  with assms have s': "s' = loop_iteration c tx_status s"
    by simp
  show ?thesis
  proof (cases "gpio_intr_flag s")
    case True
    with s' Loop_Iteration show ?thesis
      by (simp add: loop_iteration_pending)
  next
    case False
    with s' Loop_Iteration show ?thesis
      by (simp add: loop_iteration_idle)
  qed
qed

subsection \<open>The node identity in every submitted frame\<close>

lemma rx_event_carries: "list_all rx_event evs \<Longrightarrow> list_all carries_node_identity evs"
  by (induction evs) (auto simp add: rx_event_def carries_node_identity_def split: event.splits)

lemma exec_keeps_identity:
  assumes "identity_kept s" and "exec c a s = Inr s'"
  shows "identity_kept s'"
  using exec_effect [OF assms(2)] assms(1)
  by (auto simp add: identity_kept_def carries_node_identity_def dest: rx_event_carries)

lemma run_keeps_identity:
  "identity_kept s \<Longrightarrow> run c actions s = Inr s' \<Longrightarrow> identity_kept s'"
proof (induction actions arbitrary: s)
  case Nil
  then show ?case by simp
next
  case (Cons a actions)
  from Cons.prems(2) obtain s1 where
    step: "exec c a s = Inr s1" and rest: "run c actions s1 = Inr s'"
    by (auto simp add: bind_res_def split: sum.splits)
  from exec_keeps_identity [OF Cons.prems(1) step] have "identity_kept s1" .
  from Cons.IH [OF this rest] show ?case .
qed

lemma main_init_identity:
  assumes "trace s0 = []" and "main_init c r s0 = Inr s1"
  shows "identity_kept s1 \<and> filter is_transmit (trace s1) = []"
proof -
  from main_init_effect [OF assms(2)] assms(1) obtain evs where
    id: "t0_f_id (CANFD_txBuffer_0 s1) = word_of_int USE_CANFD_NODE" and
    tr: "trace s1 = evs" and none: "filter is_transmit evs = []"
    by auto
  from none have "list_all carries_node_identity evs"
    by (induction evs)
      (auto simp add: is_transmit_def carries_node_identity_def split: event.splits if_splits)
  with id tr none show ?thesis
    by (simp add: identity_kept_def)
qed

text \<open>
  Claim C8. The identifier slot of the template is assigned \<open>USE_CANFD_NODE\<close> at the end of
  the initialisation, before the loop is entered and so before every transmission; nothing
  is transmitted before that. In every run of \<open>main\<close> each call of
  \<open>Cy_CANFD_UpdateAndTransmitMsgBuffer\<close> submits a frame whose identifier is the node
  identity, to buffer index \<open>CANFD_BUFFER_INDEX\<close> on channel \<open>CANFD_HW_CHANNEL\<close>.
\<close>

theorem submitted_frames_carry_node_identity:
  assumes "trace s0 = []" and "main c r actions s0 = Inr s"
  shows "(\<exists>s1. main_init c r s0 = Inr s1 \<and> run c actions s1 = Inr s
           \<and> t0_f_id (CANFD_txBuffer_0 s1) = word_of_int USE_CANFD_NODE
           \<and> filter is_transmit (trace s1) = [])
    \<and> (\<forall>chan frame index.
          Cy_CANFD_UpdateAndTransmitMsgBuffer chan frame index \<in> set (trace s) \<longrightarrow>
            t0_f_id frame = word_of_int USE_CANFD_NODE
            \<and> chan = CANFD_HW_CHANNEL \<and> index = CANFD_BUFFER_INDEX)"
proof -
  from assms(2) obtain s1 where
    init: "main_init c r s0 = Inr s1" and loop: "run c actions s1 = Inr s"
    by (auto simp add: main_def bind_res_def split: sum.splits)
  from main_init_identity [OF assms(1) init] have
    kept1: "identity_kept s1" and none: "filter is_transmit (trace s1) = []"
    by simp_all
  from run_keeps_identity [OF kept1 loop] have kept: "identity_kept s" .
  have "t0_f_id frame = word_of_int USE_CANFD_NODE
      \<and> chan = CANFD_HW_CHANNEL \<and> index = CANFD_BUFFER_INDEX"
    if "Cy_CANFD_UpdateAndTransmitMsgBuffer chan frame index \<in> set (trace s)"
    for chan frame index
  proof -
    from kept that have "carries_node_identity (Cy_CANFD_UpdateAndTransmitMsgBuffer chan frame index)"
      by (simp add: identity_kept_def list_all_iff)
    then show ?thesis
      by (simp add: carries_node_identity_def)
  qed
  moreover from kept1 have "t0_f_id (CANFD_txBuffer_0 s1) = word_of_int USE_CANFD_NODE"
    by (simp add: identity_kept_def)
  ultimately show ?thesis
    using init loop none by blast
qed
lemma upt4: "[0..<4] = [0, 1, 2, 3 :: nat]"
  by (simp add: upt_conv_Cons)

lemma example_frame_received:
  "canfd_rx_callback True 0 example_frame s =
     Inr (s\<lparr>trace := trace s @
        [Cyhal_gpio_toggle CYBSP_USER_LED,
         Printf (''%d bytes received with message identifier %d'' @ CRLF @ CRLF) [4, 2],
         Printf ''Rx Data : '' [],
         Printf '' %d '' [1], Printf '' %d '' [2], Printf '' %d '' [3], Printf '' %d '' [4],
         Printf (CRLF @ CRLF) []]\<rparr>)"
  using canfd_rx_callback_data_frame [of example_frame 0 s]
  by (simp add: example_frame_def CANFD_DLC_def upt4)

lemma example_run: "main example_consts example_results example_actions example_state = Inr example_end"
  by (simp add: example_end_def main_def main_init_def Let_def bind_res_def handle_error_def
      example_results_def example_consts_def example_actions_def isr_canfd_def
      example_frame_received loop_iteration_def gpio_interrupt_handler_def
      set_gpio_intr_flag_def printf_def emit_def void_cast_def)

lemma example_transmissions:
  "filter is_transmit (trace example_end) =
     [Cy_CANFD_UpdateAndTransmitMsgBuffer 0
        \<lparr>t0_f_id = 1, t1_f_dlc = 8, tx_data_area_f = [1, 2, 3, 4, 5, 6, 7, 8]\<rparr> 0,
      Cy_CANFD_UpdateAndTransmitMsgBuffer 0
        \<lparr>t0_f_id = 1, t1_f_dlc = 8, tx_data_area_f = [1, 2, 3, 4, 5, 6, 7, 8]\<rparr> 0]"
  by (simp add: example_end_def main_def main_init_def Let_def bind_res_def handle_error_def
      example_results_def example_consts_def example_actions_def isr_canfd_def
      example_frame_received loop_iteration_def gpio_interrupt_handler_def
      set_gpio_intr_flag_def printf_def emit_def void_cast_def example_state_def is_transmit_def
      USE_CANFD_NODE_def CANFD_NODE_1_def CANFD_HW_CHANNEL_def CANFD_BUFFER_INDEX_def)

theorem submitted_frames_carry_node_identity_witness:
  "trace example_state = []
   \<and> main example_consts example_results example_actions example_state = Inr example_end
   \<and> (\<exists>s1. main_init example_consts example_results example_state = Inr s1
          \<and> run example_consts example_actions s1 = Inr example_end
          \<and> t0_f_id (CANFD_txBuffer_0 s1) = word_of_int USE_CANFD_NODE
          \<and> filter is_transmit (trace s1) = [])
   \<and> filter is_transmit (trace example_end) =
       [Cy_CANFD_UpdateAndTransmitMsgBuffer 0
          \<lparr>t0_f_id = 1, t1_f_dlc = 8, tx_data_area_f = [1, 2, 3, 4, 5, 6, 7, 8]\<rparr> 0,
        Cy_CANFD_UpdateAndTransmitMsgBuffer 0
          \<lparr>t0_f_id = 1, t1_f_dlc = 8, tx_data_area_f = [1, 2, 3, 4, 5, 6, 7, 8]\<rparr> 0]"
proof -
  have start: "trace example_state = []"
    by (simp add: example_state_def)
  from submitted_frames_carry_node_identity [OF start example_run]
  have "\<exists>s1. main_init example_consts example_results example_state = Inr s1
          \<and> run example_consts example_actions s1 = Inr example_end
          \<and> t0_f_id (CANFD_txBuffer_0 s1) = word_of_int USE_CANFD_NODE
          \<and> filter is_transmit (trace s1) = []"
    by (rule conjunct1)
  with start example_run example_transmissions show ?thesis
    by simp
qed

subsection \<open>The writers of the flag\<close>

lemma rx_event_no_write: "list_all rx_event evs \<Longrightarrow> Write_gpio_intr_flag b \<notin> set evs"
  by (auto simp add: list_all_iff rx_event_def)

text \<open>
  Claim C9. The button handler writes true to the flag on every invocation and does
  nothing else. Of the actions of the running system only the button interrupt writes true,
  and only a pass of the loop writes false, and it does so after the transmit call and the
  log line of that pass, having found the flag true. The flag changes only through such a
  write. The initialisation, the receive callback and \<open>handle_error\<close> leave the flag as it
  is and write nothing to it.
\<close>

theorem gpio_intr_flag_writers:
  "gpio_interrupt_handler handler_arg event s =
     s\<lparr>gpio_intr_flag := True, trace := trace s @ [Write_gpio_intr_flag True]\<rparr>
   \<and> (exec c a s = Inr s' \<longrightarrow>
        (Write_gpio_intr_flag True \<in> set (new_events s s') \<longrightarrow> a = Button_Interrupt)
        \<and> (Write_gpio_intr_flag False \<in> set (new_events s s') \<longrightarrow>
             (\<exists>tx_status. a = Loop_Iteration tx_status) \<and> gpio_intr_flag s
             \<and> (\<exists>fmt. new_events s s' =
                   [Cy_CANFD_UpdateAndTransmitMsgBuffer CANFD_HW_CHANNEL (CANFD_txBuffer_0 s)
                      CANFD_BUFFER_INDEX,
                    Printf fmt [USE_CANFD_NODE], Write_gpio_intr_flag False]))
        \<and> (gpio_intr_flag s' \<noteq> gpio_intr_flag s \<longrightarrow>
             Write_gpio_intr_flag (gpio_intr_flag s') \<in> set (new_events s s')))
   \<and> (main_init c r s = Inr s1 \<longrightarrow>
        gpio_intr_flag s1 = gpio_intr_flag s
        \<and> (\<forall>b. Write_gpio_intr_flag b \<notin> set (new_events s s1)))
   \<and> (canfd_rx_callback msg_valid msg_buf_fifo_num canfd_rx_buf s = Inr s2 \<longrightarrow>
        gpio_intr_flag s2 = gpio_intr_flag s
        \<and> (\<forall>b. Write_gpio_intr_flag b \<notin> set (new_events s s2)))
   \<and> (handle_error c status s = Inr s3 \<longrightarrow> s3 = s)"
proof (intro conjI impI)
  show "gpio_interrupt_handler handler_arg event s =
     s\<lparr>gpio_intr_flag := True, trace := trace s @ [Write_gpio_intr_flag True]\<rparr>"
    by (simp add: gpio_interrupt_handler_def set_gpio_intr_flag_def emit_def)
next
  assume step: "exec c a s = Inr s'" and "Write_gpio_intr_flag True \<in> set (new_events s s')"
  with exec_effect [OF step] show "a = Button_Interrupt"
    by (auto simp add: new_events_def dest: rx_event_no_write)
next
  assume step: "exec c a s = Inr s'" and w: "Write_gpio_intr_flag False \<in> set (new_events s s')"
  with exec_effect [OF step] show "\<exists>tx_status. a = Loop_Iteration tx_status"
    by (auto simp add: new_events_def dest: rx_event_no_write)
  from w exec_effect [OF step] show "gpio_intr_flag s"
    by (auto simp add: new_events_def dest: rx_event_no_write)
  from w exec_effect [OF step] show "\<exists>fmt. new_events s s' =
      [Cy_CANFD_UpdateAndTransmitMsgBuffer CANFD_HW_CHANNEL (CANFD_txBuffer_0 s)
         CANFD_BUFFER_INDEX,
       Printf fmt [USE_CANFD_NODE], Write_gpio_intr_flag False]"
    by (auto simp add: new_events_def dest: rx_event_no_write)
next
  assume step: "exec c a s = Inr s'" and "gpio_intr_flag s' \<noteq> gpio_intr_flag s"
  with exec_effect [OF step]
  show "Write_gpio_intr_flag (gpio_intr_flag s') \<in> set (new_events s s')"
    by (auto simp add: new_events_def)
next
  assume init: "main_init c r s = Inr s1"
  from main_init_effect [OF init] show "gpio_intr_flag s1 = gpio_intr_flag s"
    by simp
  from main_init_effect [OF init] show "\<forall>b. Write_gpio_intr_flag b \<notin> set (new_events s s1)"
    by (auto simp add: new_events_def)
next
  assume rx: "canfd_rx_callback msg_valid msg_buf_fifo_num canfd_rx_buf s = Inr s2"
  from canfd_rx_callback_effect [OF rx] show "gpio_intr_flag s2 = gpio_intr_flag s"
    by simp
  from canfd_rx_callback_effect [OF rx]
  show "\<forall>b. Write_gpio_intr_flag b \<notin> set (new_events s s2)"
    by (auto simp add: new_events_def dest: rx_event_no_write)
next
  assume "handle_error c status s = Inr s3"
  then show "s3 = s"
    by (simp add: handle_error_def CY_ASSERT_def split: if_splits)
qed

theorem gpio_intr_flag_writers_witness:
  "gpio_interrupt_handler () () example_state =
     example_state\<lparr>gpio_intr_flag := True, trace := [Write_gpio_intr_flag True]\<rparr>
   \<and> exec example_consts Button_Interrupt example_state =
       Inr (example_state\<lparr>gpio_intr_flag := True, trace := [Write_gpio_intr_flag True]\<rparr>)
   \<and> new_events example_state
        (example_state\<lparr>gpio_intr_flag := True, trace := [Write_gpio_intr_flag True]\<rparr>) =
       [Write_gpio_intr_flag True]
   \<and> exec example_consts (Loop_Iteration 0) pending_state =
       Inr (loop_iteration example_consts 0 pending_state)
   \<and> Write_gpio_intr_flag False \<in>
       set (new_events pending_state (loop_iteration example_consts 0 pending_state))
   \<and> gpio_intr_flag pending_state
   \<and> canfd_rx_callback False 0 example_frame example_state = Inr example_state
   \<and> handle_error example_consts 0 example_state = Inr example_state
   \<and> enters_loop example_consts example_results example_state"
proof -
  have empty: "trace example_state = []"
    by (simp add: example_state_def)
  have entered: "enters_loop example_consts example_results example_state"
    by (simp add: enters_loop_def main_init_def Let_def bind_res_def handle_error_def
        example_results_def example_consts_def)
  have ignored: "canfd_rx_callback False 0 example_frame example_state = Inr example_state"
    by (simp add: canfd_rx_callback_def)
  have passed: "handle_error example_consts 0 example_state = Inr example_state"
    by (simp add: handle_error_def example_consts_def)
  have pending: "gpio_intr_flag pending_state"
    by (simp add: pending_state_def)
  have cleared: "Write_gpio_intr_flag False \<in>
      set (new_events pending_state (loop_iteration example_consts 0 pending_state))"
    by (simp add: loop_iteration_pending [OF pending] new_events_def)
  have pass: "exec example_consts (Loop_Iteration 0) pending_state =
      Inr (loop_iteration example_consts 0 pending_state)"
    by simp
  from gpio_intr_flag_writers [of "()" "()" pending_state example_consts "Loop_Iteration 0"
      "loop_iteration example_consts 0 pending_state"] pass cleared
  have "gpio_intr_flag pending_state"
    by blast
  then show ?thesis
    using empty entered ignored passed cleared pass
      gpio_intr_flag_writers [of "()" "()" example_state example_consts Button_Interrupt
        "example_state\<lparr>gpio_intr_flag := True, trace := [Write_gpio_intr_flag True]\<rparr>"]
    by (simp add: new_events_def)
qed

end
